theory Spec2Isabelle
  imports Main "HOL-Library.Word"
begin

section \<open>Data model of eth/api_tracer_parity.go\<close>

text \<open>
  Fixed-size byte arrays of go-ethereum (\<open>common.Address\<close> is 20 bytes, \<open>common.Hash\<close>
  is 32 bytes) and Go's \<open>uint64\<close> are machine words. \<open>rpc.BlockNumber\<close> is an
  \<open>int64\<close>; it is kept as a 64-bit word, read as signed by \<open>sint\<close>, so that the
  conversion \<open>uint64(number)\<close> is the identity on the bits. A \<open>*big.Int\<close>
  (and \<open>*hexutil.Big\<close>, the same pointer under another type) is an optional
  unbounded integer: \<open>None\<close> is the nil pointer.
\<close>

type_synonym address = "160 word"
type_synonym hash = "256 word"
type_synonym uint64 = "64 word"
type_synonym BlockNumber = "64 word"
type_synonym big = "int option"

text \<open>
  JSON values. A number is represented by what \<open>strconv.ParseFloat(s, 64)\<close> makes of
  its literal, since that is how \<open>json.Unmarshal\<close> decodes a number into an
  \<open>interface{}\<close>: \<open>None\<close> when the literal is out of the range of a
  \<open>float64\<close>, otherwise the \<open>float64\<close> it rounds to, kept as its 64 bits (no
  arithmetic is done on it).

  A \<open>json.RawMessage\<close> is a byte string; this file only hands it to
  \<open>json.Unmarshal\<close>, so it is represented by what the scanner of encoding/json makes
  of its bytes: \<open>Invalid\<close> when it rejects them (a \<open>SyntaxError\<close>), \<open>Valid j\<close>
  when they encode the value \<open>j\<close>.
\<close>

type_synonym float64 = "64 word"

datatype json =
    JNull
  | JBool bool
  | JNumber "float64 option"
  | JString string
  | JArray "json list"
  | JObject "(string \<times> json) list"

datatype RawMessage = Invalid | Valid json

text \<open>\<open>type TraceFilterArgs struct\<close>\<close>

record TraceFilterArgs =
  FromBlock :: uint64
  ToBlock :: uint64
  FromAddress :: "address option"
  ToAddress :: "address option"
  After :: uint64
  Count :: uint64

text \<open>\<open>type TraceRewardAction struct\<close>\<close>

record TraceRewardAction =
  Value :: big
  Author :: "address option"
  RewardType :: string

text \<open>
  \<open>type ParityTrace struct\<close>. \<open>Result\<close> is an \<open>interface{}\<close> that this file
  never sets (\<open>None\<close> is the nil interface, serialised as \<open>null\<close>).
  \<open>TraceAddress\<close> is a slice: \<open>None\<close> is the nil slice (serialised as
  \<open>null\<close>), \<open>Some []\<close> is the empty slice \<open>[]int{}\<close> (serialised as \<open>[]\<close>).
\<close>

record ParityTrace =
  Action :: TraceRewardAction
  BlockHash :: hash
  BlockNumber :: uint64
  Error :: string
  Result :: "json option"
  Subtraces :: int
  TraceAddress :: "int list option"
  TransactionHash :: "hash option"
  TransactionPosition :: "uint64 option"
  Type :: string

text \<open>
  \<open>TraceConfig\<close> is declared in eth/api_tracer.go, outside this file. Only the two
  fields this file reads or writes are modelled: \<open>Tracer *string\<close> and
  \<open>NestedTraceOutput bool\<close>. A \<open>*TraceConfig\<close> is a \<open>TraceConfig option\<close>.
\<close>

record TraceConfig =
  Tracer :: "string option"
  NestedTraceOutput :: bool

text \<open>
  Values of type \<open>interface{}\<close> that pass through this file: the nil interface, a value
  decoded from JSON by \<open>json.Unmarshal\<close>, a \<open>json.RawMessage\<close>, a
  \<open>*ParityTrace\<close> (possibly a nil pointer) and a \<open>map[string]interface{}\<close>.
\<close>

datatype iface =
    INil
  | IJson json
  | IRawMessage RawMessage
  | IParityTrace "ParityTrace option"
  | IMap "string \<Rightarrow> iface option"

text \<open>
  Errors. The first four are built by \<open>fmt.Errorf\<close> in this file:
  \<open>"block #%d not found"\<close> (number), \<open>"starting block #%d not found"\<close> (start),
  \<open>"end block #%d not found"\<close> (end) and
  \<open>"end block (#%d) needs to come after start block (#%d)"\<close> (end, start).
  \<open>SyntaxError\<close> and \<open>UnmarshalTypeError\<close> are the errors of
  \<open>json.Unmarshal\<close>; \<open>Upstream\<close> is any error returned by a tracer entry point.
\<close>

datatype error =
    BlockNotFound BlockNumber
  | StartingBlockNotFound uint64
  | EndBlockNotFound uint64
  | EndNotAfterStart uint64 uint64
  | SyntaxError
  | UnmarshalTypeError
  | Upstream string

section \<open>Tracer configuration\<close>

text \<open>
  \<open>setTraceConfigDefaultTracer\<close>. The Go function writes \<open>config.Tracer\<close> through
  the pointer and returns the pointer; the model returns the struct the returned
  pointer refers to.
\<close>

definition setTraceConfigDefaultTracer :: "TraceConfig option \<Rightarrow> TraceConfig option" where
  "setTraceConfigDefaultTracer config =
     (let config = (case config of
                      None \<Rightarrow> \<lparr>Tracer = None, NestedTraceOutput = False\<rparr>
                    | Some c \<Rightarrow> c)
      in if Tracer config = None
         then Some (config\<lparr>Tracer := Some ''callTracerParity''\<rparr>)
         else Some config)"

section \<open>Response decoration\<close>

definition decorateNestedTraceResponse :: "iface \<Rightarrow> string \<Rightarrow> iface" where
  "decorateNestedTraceResponse res tracer =
     (let out = Map.empty
      in if tracer = ''callTracerParity'' then IMap (out(''trace'' \<mapsto> res))
         else if tracer = ''stateDiffTracer'' then IMap (out(''stateDiff'' \<mapsto> res))
         else res)"

definition decorateResponse :: "iface \<Rightarrow> TraceConfig option \<Rightarrow> iface \<times> error option" where
  "decorateResponse res config =
     (case config of
        None \<Rightarrow> (res, None)
      | Some c \<Rightarrow>
          if NestedTraceOutput c
          then (case Tracer c of
                  None \<Rightarrow> (res, None)
                | Some tracer \<Rightarrow> (decorateNestedTraceResponse res tracer, None))
          else (res, None))"

section \<open>Chain data and collaborators\<close>

text \<open>
  \<open>types.Header\<close> and \<open>types.Block\<close> are declared in core/types, outside this file.
  Of a header the file reads the field \<open>Coinbase\<close>. A block is the record of what the
  accessor methods called here return: \<open>Header()\<close>, \<open>Uncles()\<close>, \<open>Coinbase()\<close>,
  \<open>Hash()\<close>, \<open>NumberU64()\<close> and \<open>Number()\<close> (a \<open>*big.Int\<close> that is never nil).
\<close>

record types_Header =
  Coinbase :: address

record types_Block =
  Block_Header :: types_Header
  Block_Uncles :: "types_Header list"
  Block_Coinbase :: address
  Block_Hash :: hash
  Block_NumberU64 :: uint64
  Block_Number :: int

text \<open>
  The part of \<open>*Ethereum\<close> this file uses: \<open>eth.miner.PendingBlock()\<close>,
  \<open>eth.blockchain.CurrentBlock()\<close>, \<open>eth.blockchain.GetBlockByNumber(n)\<close> (a nil
  block is \<open>None\<close>) and \<open>eth.blockchain.Config()\<close>, whose type is left open.
\<close>

record 'c Ethereum =
  miner_PendingBlock :: "types_Block option"
  blockchain_CurrentBlock :: "types_Block option"
  blockchain_GetBlockByNumber :: "uint64 \<Rightarrow> types_Block option"
  blockchain_Config :: 'c

text \<open>
  Modelled from the spec: \<open>rpc.PendingBlockNumber\<close> and \<open>rpc.LatestBlockNumber\<close>, the
  sentinel references for the pending block and the chain head, are declared in the rpc
  package, outside this file. The comment on \<open>Call\<close> gives -2 for the pending block; the
  head is -1.
\<close>

definition PendingBlockNumber :: BlockNumber where
  "PendingBlockNumber = - 2"

definition LatestBlockNumber :: BlockNumber where
  "LatestBlockNumber = - 1"

text \<open>
  \<open>txTraceResult\<close> is declared in eth/api_tracer.go; \<open>Block\<close> reads its field
  \<open>Result\<close>, an \<open>interface{}\<close>.
\<close>

record txTraceResult =
  tx_Result :: iface
  tx_Error :: string

text \<open>
  A Go call either returns or panics. A function with results \<open>(T, error)\<close> returns
  a pair whose second component is \<open>None\<close> for a nil error.
\<close>

datatype 'a outcome = Returns 'a | Panics

text \<open>
  \<open>json.Unmarshal(raw, &tmp)\<close> with \<open>var tmp []interface{}\<close>: the final value of
  \<open>tmp\<close> and the error. Bytes that the scanner rejects are a \<open>SyntaxError\<close>. A
  JSON array fills \<open>tmp\<close> with its decoded elements (a \<open>null\<close> element decodes to
  the nil interface); a number out of the range of a \<open>float64\<close>, anywhere in the
  array, decodes to nil and makes the call return an \<open>UnmarshalTypeError\<close> once the
  array has been read. The JSON value \<open>null\<close> leaves \<open>tmp\<close> nil without an error;
  any other JSON value is an \<open>UnmarshalTypeError\<close>. \<open>tmp\<close> is only ever appended
  to another slice, so the nil slice and the empty slice are both \<open>[]\<close>.
  \<open>IJson j\<close> stands for the Go value that \<open>j\<close> decodes to (\<open>bool\<close>,
  \<open>float64\<close>, \<open>string\<close>, \<open>[]interface{}\<close> or \<open>map[string]interface{}\<close>).
\<close>

primrec inRange :: "json \<Rightarrow> bool" where
  "inRange JNull = True"
| "inRange (JBool b) = True"
| "inRange (JNumber f) = (f \<noteq> None)"
| "inRange (JString s) = True"
| "inRange (JArray js) = list_all id (map inRange js)"
| "inRange (JObject kvs) = list_all snd (map (map_prod id inRange) kvs)"

definition decoded :: "json \<Rightarrow> iface" where
  "decoded j = (case j of JNull \<Rightarrow> INil | JNumber None \<Rightarrow> INil | _ \<Rightarrow> IJson j)"

definition Unmarshal :: "RawMessage \<Rightarrow> iface list \<times> error option" where
  "Unmarshal raw =
     (case raw of
        Invalid \<Rightarrow> ([], Some SyntaxError)
      | Valid JNull \<Rightarrow> ([], None)
      | Valid (JArray js) \<Rightarrow>
          (map decoded js, if list_all id (map inRange js) then None else Some UnmarshalTypeError)
      | Valid _ \<Rightarrow> ([], Some UnmarshalTypeError))"

section \<open>Reward synthesis\<close>

text \<open>
  \<open>ethash.GetRewards\<close> (consensus/ethash, outside this file) is a parameter of both
  functions: from the chain configuration, the header and the uncle headers it gives the
  miner reward and the list of uncle rewards. \<open>ctx\<close> and \<open>config\<close> are not used by
  either body; \<open>config\<close> is kept, \<open>ctx\<close> is dropped.
\<close>

definition traceBlockReward ::
  "('c \<Rightarrow> types_Header \<Rightarrow> types_Header list \<Rightarrow> big \<times> big list) \<Rightarrow>
   'c Ethereum \<Rightarrow> types_Block \<Rightarrow> TraceConfig option \<Rightarrow> ParityTrace option \<times> error option" where
  "traceBlockReward GetRewards eth block config =
     (let chainConfig = blockchain_Config eth;
          minerReward = fst (GetRewards chainConfig (Block_Header block) (Block_Uncles block));
          coinbase = Block_Coinbase block;
          tr = \<lparr>Action = \<lparr>Value = minerReward, Author = Some coinbase, RewardType = ''block''\<rparr>,
                BlockHash = Block_Hash block,
                BlockNumber = Block_NumberU64 block,
                Error = [],
                Result = None,
                Subtraces = 0,
                TraceAddress = Some [],
                TransactionHash = None,
                TransactionPosition = None,
                Type = ''reward''\<rparr>
      in (Some tr, None))"

text \<open>
  The loop \<open>for i, uncle := range block.Uncles()\<close> of \<open>traceBlockUncleRewards\<close>:
  \<open>i\<close> is the index of the head of the remaining uncles. The writes
  \<open>results[i]\<close> and the read \<open>uncleRewards[i]\<close> happen under the guard
  \<open>i < len(uncleRewards)\<close>, and \<open>results\<close> has that length, so neither is out of range.
\<close>

fun uncleLoop ::
  "types_Block \<Rightarrow> big list \<Rightarrow> nat \<Rightarrow> types_Header list \<Rightarrow>
   ParityTrace option list \<Rightarrow> ParityTrace option list" where
  "uncleLoop block uncleRewards i [] results = results"
| "uncleLoop block uncleRewards i (uncle # rest) results =
     uncleLoop block uncleRewards (i + 1) rest
       (if i < length uncleRewards
        then (let coinbase = Coinbase uncle
              in results[i := Some
                   \<lparr>Action = \<lparr>Value = uncleRewards ! i, Author = Some coinbase,
                              RewardType = ''uncle''\<rparr>,
                    BlockHash = Block_Hash block,
                    BlockNumber = Block_NumberU64 block,
                    Error = [],
                    Result = None,
                    Subtraces = 0,
                    TraceAddress = Some [],
                    TransactionHash = None,
                    TransactionPosition = None,
                    Type = ''reward''\<rparr>])
        else results)"

definition traceBlockUncleRewards ::
  "('c \<Rightarrow> types_Header \<Rightarrow> types_Header list \<Rightarrow> big \<times> big list) \<Rightarrow>
   'c Ethereum \<Rightarrow> types_Block \<Rightarrow> TraceConfig option \<Rightarrow>
   ParityTrace option list \<times> error option" where
  "traceBlockUncleRewards GetRewards eth block config =
     (let chainConfig = blockchain_Config eth;
          uncleRewards = snd (GetRewards chainConfig (Block_Header block) (Block_Uncles block));
          results = replicate (length uncleRewards) None
      in (uncleLoop block uncleRewards 0 (Block_Uncles block) results, None))"


section \<open>The trace API\<close>

text \<open>
  The first loop of \<open>Block\<close>, over \<open>traceResults\<close>, with \<open>results\<close> as its
  accumulator. \<open>Inl\<close> is the outcome of \<open>Block\<close> when the loop leaves the function:
  the early \<open>return nil, err\<close>, or the panic of the type assertion
  \<open>result.Result.(json.RawMessage)\<close> on a value that is not a \<open>json.RawMessage\<close>.
  \<open>Inr\<close> is \<open>results\<close> after the last iteration.
\<close>

fun traceResultsLoop ::
  "txTraceResult list \<Rightarrow> iface list \<Rightarrow>
   (iface list option \<times> error option) outcome + iface list" where
  "traceResultsLoop [] results = Inr results"
| "traceResultsLoop (result # rest) results =
     (case tx_Result result of
        IRawMessage raw \<Rightarrow>
          (case Unmarshal raw of
             (tmp, Some err) \<Rightarrow> Inl (Returns (None, Some err))
           | (tmp, None) \<Rightarrow> traceResultsLoop rest (results @ tmp))
      | _ \<Rightarrow> Inl Panics)"

text \<open>
  \<open>Block\<close>. The external \<open>traceBlockByNumber\<close> (eth/api_tracer.go) and
  \<open>ethash.GetRewards\<close> are parameters. The result slice is \<open>None\<close> when the Go
  function returns \<open>nil\<close> for it.
\<close>

definition Block ::
  "('c \<Rightarrow> types_Header \<Rightarrow> types_Header list \<Rightarrow> big \<times> big list) \<Rightarrow>
   ('c Ethereum \<Rightarrow> BlockNumber \<Rightarrow> TraceConfig option \<Rightarrow> txTraceResult list \<times> error option) \<Rightarrow>
   'c Ethereum \<Rightarrow> BlockNumber \<Rightarrow> TraceConfig option \<Rightarrow>
   (iface list option \<times> error option) outcome" where
  "Block GetRewards traceBlockByNumber eth number config =
     (let block =
            (if number = PendingBlockNumber then miner_PendingBlock eth
             else if number = LatestBlockNumber then blockchain_CurrentBlock eth
             else blockchain_GetBlockByNumber eth number)
      in case block of
           None \<Rightarrow> Returns (None, Some (BlockNotFound number))
         | Some block \<Rightarrow>
             (let config = setTraceConfigDefaultTracer config
              in case traceBlockByNumber eth number config of
                   (traceResults, Some err) \<Rightarrow> Returns (None, Some err)
                 | (traceResults, None) \<Rightarrow>
                     (case traceBlockReward GetRewards eth block config of
                        (traceReward, Some err) \<Rightarrow> Returns (None, Some err)
                      | (traceReward, None) \<Rightarrow>
                          (case traceBlockUncleRewards GetRewards eth block config of
                             (traceUncleRewards, Some err) \<Rightarrow> Returns (None, Some err)
                           | (traceUncleRewards, None) \<Rightarrow>
                               (case traceResultsLoop traceResults [] of
                                  Inl left \<Rightarrow> left
                                | Inr results \<Rightarrow>
                                    (let results = results @ [IParityTrace traceReward];
                                         results = foldl (\<lambda>results uncleReward.
                                                      results @ [IParityTrace uncleReward])
                                                    results traceUncleRewards
                                     in Returns (Some results, None)))))))"

text \<open>
  \<open>Filter\<close>. The external \<open>traceChain\<close> is a parameter; the type of the
  subscription it returns is left open.
\<close>

definition Filter ::
  "('c Ethereum \<Rightarrow> types_Block \<Rightarrow> types_Block \<Rightarrow> TraceConfig option \<Rightarrow>
      'sub option \<times> error option) \<Rightarrow>
   'c Ethereum \<Rightarrow> TraceFilterArgs \<Rightarrow> TraceConfig option \<Rightarrow> 'sub option \<times> error option" where
  "Filter traceChain eth args config =
     (let config = setTraceConfigDefaultTracer config;
          start = FromBlock args;
          end = ToBlock args;
          from = blockchain_GetBlockByNumber eth start;
          to = blockchain_GetBlockByNumber eth end
      in case from of
           None \<Rightarrow> (None, Some (StartingBlockNotFound start))
         | Some from \<Rightarrow>
             (case to of
                None \<Rightarrow> (None, Some (EndBlockNotFound end))
              | Some to \<Rightarrow>
                  if Block_Number from \<ge> Block_Number to
                  then (None, Some (EndNotAfterStart end start))
                  else traceChain eth from to config))"

text \<open>
  \<open>Call\<close> and \<open>CallMany\<close>. The external \<open>traceCall\<close> and \<open>traceCallMany\<close>
  are parameters; the types of the call arguments and of the block reference are left
  open. A nil \<open>interface{}\<close> result is \<open>INil\<close>.
\<close>

definition Call ::
  "('e \<Rightarrow> 'args \<Rightarrow> 'ref \<Rightarrow> TraceConfig option \<Rightarrow> iface \<times> error option) \<Rightarrow>
   'e \<Rightarrow> 'args \<Rightarrow> 'ref \<Rightarrow> TraceConfig option \<Rightarrow> iface \<times> error option" where
  "Call traceCall eth args blockNrOrHash config =
     (let config = setTraceConfigDefaultTracer config
      in case traceCall eth args blockNrOrHash config of
           (res, Some err) \<Rightarrow> (INil, Some err)
         | (res, None) \<Rightarrow> decorateResponse res config)"

definition CallMany ::
  "('e \<Rightarrow> 'args list \<Rightarrow> 'ref \<Rightarrow> TraceConfig option \<Rightarrow> iface \<times> error option) \<Rightarrow>
   'e \<Rightarrow> 'args list \<Rightarrow> 'ref \<Rightarrow> TraceConfig option \<Rightarrow> iface \<times> error option" where
  "CallMany traceCallMany eth txs blockNrOrHash config =
     (let config = setTraceConfigDefaultTracer config
      in case traceCallMany eth txs blockNrOrHash config of
           (res, Some err) \<Rightarrow> (INil, Some err)
         | (res, None) \<Rightarrow> (res, None))"

section \<open>Notions used to state the properties\<close>

text \<open>
  The reward record of the specification: type \<open>reward\<close>, the action made of the
  amount, the credited address and the reward type, an empty trace address, hash and
  number copied from the block, and every other field at its zero value.
\<close>

definition rewardRecord :: "types_Block \<Rightarrow> big \<Rightarrow> address \<Rightarrow> string \<Rightarrow> ParityTrace" where
  "rewardRecord block amount author rewardType =
     \<lparr>Action = \<lparr>Value = amount, Author = Some author, RewardType = rewardType\<rparr>,
      BlockHash = Block_Hash block,
      BlockNumber = Block_NumberU64 block,
      Error = [],
      Result = None,
      Subtraces = 0,
      TraceAddress = Some [],
      TransactionHash = None,
      TransactionPosition = None,
      Type = ''reward''\<rparr>"

text \<open>
  The block a reference resolves to: the \<open>switch\<close> at the head of \<open>Block\<close>.
\<close>

definition resolveBlock :: "'c Ethereum \<Rightarrow> BlockNumber \<Rightarrow> types_Block option" where
  "resolveBlock eth number =
     (if number = PendingBlockNumber then miner_PendingBlock eth
      else if number = LatestBlockNumber then blockchain_CurrentBlock eth
      else blockchain_GetBlockByNumber eth number)"

text \<open>
  A transaction's traced payload decodes to the sequence \<open>tmp\<close>: it is a
  \<open>json.RawMessage\<close> that \<open>json.Unmarshal\<close> reads into \<open>tmp\<close> without an error.
\<close>

definition decodesTo :: "txTraceResult \<Rightarrow> iface list \<Rightarrow> bool" where
  "decodesTo result tmp =
     (case tx_Result result of
        IRawMessage raw \<Rightarrow> Unmarshal raw = (tmp, None)
      | _ \<Rightarrow> False)"

section \<open>An example chain\<close>

text \<open>
  Blocks 0 to 101 exist; block 100 has one uncle, block 101 has two, the others none. The
  chain head is block 101 and there is no pending block. \<open>ex_GetRewards rs\<close> gives
  the miner reward 2000 and the uncle rewards \<open>rs\<close> whatever the uncles are. Every
  block traces to two transactions with the payloads \<open>["a"]\<close> and \<open>["b","c"]\<close>; the tracer
  \<open>ex_traceBlockByNumber_undecodable\<close> gives the second payload as the object
  \<open>{"b":"c"}\<close>, and \<open>ex_traceBlockByNumber_no_payload\<close> gives the second
  transaction as a result that holds an error message and a nil \<open>Result\<close>.
  \<open>ex_traceChain\<close> answers with the numbers of the two blocks it is started on.
\<close>

definition ex_uncle0 :: types_Header where
  "ex_uncle0 = \<lparr>Coinbase = 160\<rparr>"

definition ex_uncle1 :: types_Header where
  "ex_uncle1 = \<lparr>Coinbase = 161\<rparr>"

definition ex_block :: "uint64 \<Rightarrow> types_Block" where
  "ex_block n =
     \<lparr>Block_Header = \<lparr>Coinbase = 192\<rparr>,
      Block_Uncles = (if n = 100 then [ex_uncle0]
                      else if n = 101 then [ex_uncle0, ex_uncle1] else []),
      Block_Coinbase = 192,
      Block_Hash = 4096 + ucast n,
      Block_NumberU64 = n,
      Block_Number = uint n\<rparr>"

definition ex_eth :: "unit Ethereum" where
  "ex_eth =
     \<lparr>miner_PendingBlock = None,
      blockchain_CurrentBlock = Some (ex_block 101),
      blockchain_GetBlockByNumber = (\<lambda>n. if n \<le> 101 then Some (ex_block n) else None),
      blockchain_Config = ()\<rparr>"

definition ex_GetRewards ::
  "big list \<Rightarrow> unit \<Rightarrow> types_Header \<Rightarrow> types_Header list \<Rightarrow> big \<times> big list" where
  "ex_GetRewards uncleRewards chainConfig header uncles = (Some 2000, uncleRewards)"

definition ex_traceBlockByNumber ::
  "unit Ethereum \<Rightarrow> BlockNumber \<Rightarrow> TraceConfig option \<Rightarrow> txTraceResult list \<times> error option" where
  "ex_traceBlockByNumber eth number config =
     ([\<lparr>tx_Result = IRawMessage (Valid (JArray [JString ''a''])), tx_Error = []\<rparr>,
       \<lparr>tx_Result = IRawMessage (Valid (JArray [JString ''b'', JString ''c''])), tx_Error = []\<rparr>],
      None)"

definition ex_traceBlockByNumber_undecodable ::
  "unit Ethereum \<Rightarrow> BlockNumber \<Rightarrow> TraceConfig option \<Rightarrow> txTraceResult list \<times> error option" where
  "ex_traceBlockByNumber_undecodable eth number config =
     ([\<lparr>tx_Result = IRawMessage (Valid (JArray [JString ''a''])), tx_Error = []\<rparr>,
       \<lparr>tx_Result = IRawMessage (Valid (JObject [(''b'', JString ''c'')])), tx_Error = []\<rparr>],
      None)"

definition ex_traceBlockByNumber_no_payload ::
  "unit Ethereum \<Rightarrow> BlockNumber \<Rightarrow> TraceConfig option \<Rightarrow> txTraceResult list \<times> error option" where
  "ex_traceBlockByNumber_no_payload eth number config =
     ([\<lparr>tx_Result = IRawMessage (Valid (JArray [JString ''a''])), tx_Error = []\<rparr>,
       \<lparr>tx_Result = INil, tx_Error = ''execution reverted''\<rparr>],
      None)"

definition ex_args :: "uint64 \<Rightarrow> uint64 \<Rightarrow> TraceFilterArgs" where
  "ex_args start end =
     \<lparr>FromBlock = start, ToBlock = end, FromAddress = None, ToAddress = None,
      After = 0, Count = 0\<rparr>"

definition ex_traceChain ::
  "unit Ethereum \<Rightarrow> types_Block \<Rightarrow> types_Block \<Rightarrow> TraceConfig option \<Rightarrow>
   (uint64 \<times> uint64) option \<times> error option" where
  "ex_traceChain eth from to config = (Some (Block_NumberU64 from, Block_NumberU64 to), None)"

section \<open>Auxiliary facts about the loops\<close>

lemma uncleLoop_length:
  "length (uncleLoop block uncleRewards i uncles results) = length results"
  by (induction uncles arbitrary: i results) (simp_all add: Let_def)

lemma uncleLoop_nth:
  "k < length results \<Longrightarrow>
   uncleLoop block uncleRewards i uncles results ! k =
     (if i \<le> k \<and> k < i + length uncles \<and> k < length uncleRewards
      then Some (rewardRecord block (uncleRewards ! k) (Coinbase (uncles ! (k - i))) ''uncle'')
      else results ! k)"
proof (induction uncles arbitrary: i results)
  case Nil
  then show ?case by auto
next
  case (Cons uncle rest)
  show ?case
  proof (cases "k = i")
    case True
    with Cons.prems Cons.IH [of "results[i := x]" "Suc i" for x] Cons.IH [of results "Suc i"]
    show ?thesis by (simp add: Let_def rewardRecord_def)
  next
    case False
    with Cons.prems Cons.IH [of "results[i := x]" "Suc i" for x] Cons.IH [of results "Suc i"]
    show ?thesis by (auto simp add: Let_def rewardRecord_def nth_Cons')
  qed
qed

lemma traceBlockUncleRewards_eq:
  "traceBlockUncleRewards GetRewards eth block config =
     (let uncles = Block_Uncles block;
          uncleRewards = snd (GetRewards (blockchain_Config eth) (Block_Header block) uncles)
      in (map (\<lambda>(uncle, amount). Some (rewardRecord block amount (Coinbase uncle) ''uncle''))
            (zip uncles uncleRewards)
          @ replicate (length uncleRewards - length uncles) None, None))"
  unfolding traceBlockUncleRewards_def Let_def
  by (auto intro!: nth_equalityI simp add: uncleLoop_length uncleLoop_nth nth_append)

lemma foldl_append_IParityTrace:
  "foldl (\<lambda>results uncleReward. results @ [IParityTrace uncleReward]) results xs =
     results @ map IParityTrace xs"
  by (induction xs arbitrary: results) simp_all

lemma traceResultsLoop_left:
  "traceResultsLoop traceResults results = Inl left \<Longrightarrow>
   left = Panics \<or> (\<exists>err. left = Returns (None, Some err))"
  by (induction traceResults arbitrary: results)
     (auto split: iface.splits prod.splits option.splits)

lemma traceResultsLoop_decoded:
  "list_all2 decodesTo traceResults tmps \<Longrightarrow>
   traceResultsLoop traceResults results = Inr (results @ concat tmps)"
  by (induction traceResults tmps arbitrary: results rule: list_all2_induct)
     (auto simp add: decodesTo_def split: iface.splits)

lemma traceResultsLoop_Inr:
  "traceResultsLoop traceResults results = Inr results' \<Longrightarrow>
   \<exists>tmps. list_all2 decodesTo traceResults tmps \<and> results' = results @ concat tmps"
proof (induction traceResults arbitrary: results)
  case Nil
  then show ?case by simp
next
  case (Cons result rest)
  from Cons.prems obtain raw tmp where raw: "tx_Result result = IRawMessage raw"
    and tmp: "Unmarshal raw = (tmp, None)"
    and rest: "traceResultsLoop rest (results @ tmp) = Inr results'"
    by (auto split: iface.splits prod.splits option.splits)
  from Cons.IH [OF rest] obtain tmps where
    "list_all2 decodesTo rest tmps" and "results' = (results @ tmp) @ concat tmps"
    by blast
  with raw tmp have "list_all2 decodesTo (result # rest) (tmp # tmps)
      \<and> results' = results @ concat (tmp # tmps)"
    by (simp add: decodesTo_def)
  then show ?case by blast
qed

lemma traceResultsLoop_fails:
  "list_all2 decodesTo pre tmps \<Longrightarrow> tx_Result result = IRawMessage raw \<Longrightarrow>
   Unmarshal raw = (tmp, Some err) \<Longrightarrow>
   traceResultsLoop (pre @ result # post) results = Inl (Returns (None, Some err))"
  by (induction pre tmps arbitrary: results rule: list_all2_induct)
     (auto simp add: decodesTo_def split: iface.splits)

lemma traceBlockReward_eq:
  "traceBlockReward GetRewards eth block config =
     (Some (rewardRecord block
              (fst (GetRewards (blockchain_Config eth) (Block_Header block) (Block_Uncles block)))
              (Block_Coinbase block) ''block''), None)"
  by (simp add: traceBlockReward_def rewardRecord_def)

lemma Block_merges:
  assumes "resolveBlock eth number = Some block"
    and "traceBlockByNumber eth number (setTraceConfigDefaultTracer config) = (traceResults, None)"
    and "list_all2 decodesTo traceResults tmps"
  shows "Block GetRewards traceBlockByNumber eth number config =
           Returns (Some (concat tmps
               @ [IParityTrace (fst (traceBlockReward GetRewards eth block
                                       (setTraceConfigDefaultTracer config)))]
               @ map IParityTrace (fst (traceBlockUncleRewards GetRewards eth block
                                          (setTraceConfigDefaultTracer config)))), None)"
  using assms traceResultsLoop_decoded [OF assms(3), of "[]"]
  by (simp add: Block_def resolveBlock_def traceBlockReward_eq traceBlockUncleRewards_eq
        Let_def foldl_append_IParityTrace)

lemma ex_GetBlockByNumber:
  "blockchain_GetBlockByNumber ex_eth 9 = Some (ex_block 9)"
  "blockchain_GetBlockByNumber ex_eth 10 = Some (ex_block 10)"
  "blockchain_GetBlockByNumber ex_eth 11 = Some (ex_block 11)"
  "blockchain_GetBlockByNumber ex_eth 100 = Some (ex_block 100)"
  "blockchain_GetBlockByNumber ex_eth 101 = Some (ex_block 101)"
  "blockchain_GetBlockByNumber ex_eth 102 = None"
  "blockchain_GetBlockByNumber ex_eth 999999 = None"
  by (simp_all add: ex_eth_def)

lemma Block_cases:
  "Block GetRewards traceBlockByNumber eth number config =
     (case resolveBlock eth number of
        None \<Rightarrow> Returns (None, Some (BlockNotFound number))
      | Some block \<Rightarrow>
          (case traceBlockByNumber eth number (setTraceConfigDefaultTracer config) of
             (traceResults, Some err) \<Rightarrow> Returns (None, Some err)
           | (traceResults, None) \<Rightarrow>
               (case traceResultsLoop traceResults [] of
                  Inl left \<Rightarrow> left
                | Inr results \<Rightarrow>
                    Returns (Some (results
                      @ [IParityTrace (fst (traceBlockReward GetRewards eth block
                                              (setTraceConfigDefaultTracer config)))]
                      @ map IParityTrace (fst (traceBlockUncleRewards GetRewards eth block
                                                 (setTraceConfigDefaultTracer config)))), None))))"
  by (simp add: Block_def resolveBlock_def traceBlockReward_eq traceBlockUncleRewards_eq
        Let_def foldl_append_IParityTrace split: option.splits prod.splits sum.splits)

lemma Block_returned_Some:
  assumes "Block GetRewards traceBlockByNumber eth number config = Returns (Some results, err)"
  shows "err = None \<and>
    (\<exists>block traceResults tmps.
       resolveBlock eth number = Some block
     \<and> traceBlockByNumber eth number (setTraceConfigDefaultTracer config) = (traceResults, None)
     \<and> list_all2 decodesTo traceResults tmps
     \<and> results = concat tmps
         @ [IParityTrace (fst (traceBlockReward GetRewards eth block
                                 (setTraceConfigDefaultTracer config)))]
         @ map IParityTrace (fst (traceBlockUncleRewards GetRewards eth block
                                    (setTraceConfigDefaultTracer config))))"
proof -
  from assms obtain block where block: "resolveBlock eth number = Some block"
    by (cases "resolveBlock eth number") (simp_all add: Block_cases)
  obtain traceResults e where
    tbn: "traceBlockByNumber eth number (setTraceConfigDefaultTracer config) = (traceResults, e)"
    by (cases "traceBlockByNumber eth number (setTraceConfigDefaultTracer config)")
  from assms block tbn have e: "e = None"
    by (cases e) (simp_all add: Block_cases)
  show ?thesis
  proof (cases "traceResultsLoop traceResults []")
    case (Inl left)
    from traceResultsLoop_left [OF Inl] assms block tbn e Inl have False
      by (auto simp add: Block_cases)
    then show ?thesis ..
  next
    case (Inr rs)
    from traceResultsLoop_Inr [OF Inr] obtain tmps where
      tmps: "list_all2 decodesTo traceResults tmps" and rs: "rs = concat tmps"
      by auto
    from assms block tbn e Inr rs tmps show ?thesis
      by (auto simp add: Block_cases)
  qed
qed

lemma Block_returned_None:
  assumes "Block GetRewards traceBlockByNumber eth number config = Returns (None, err)"
  shows "err \<noteq> None"
  using assms
  by (auto simp add: Block_cases split: option.splits prod.splits sum.splits
        dest: traceResultsLoop_left)

lemma ex_resolveBlock:
  "resolveBlock ex_eth 100 = Some (ex_block 100)"
  "resolveBlock ex_eth 101 = Some (ex_block 101)"
  "resolveBlock ex_eth 102 = None"
  "resolveBlock ex_eth PendingBlockNumber = None"
  "resolveBlock ex_eth LatestBlockNumber = Some (ex_block 101)"
  by (simp_all add: resolveBlock_def ex_eth_def PendingBlockNumber_def LatestBlockNumber_def)

lemma ex_decodesTo:
  "list_all2 decodesTo (fst (ex_traceBlockByNumber eth number config))
     [[IJson (JString ''a'')], [IJson (JString ''b''), IJson (JString ''c'')]]"
  by (simp add: ex_traceBlockByNumber_def decodesTo_def Unmarshal_def decoded_def)

lemma ex_uncles:
  "Block_Uncles (ex_block 100) = [ex_uncle0]"
  "Block_Uncles (ex_block 101) = [ex_uncle0, ex_uncle1]"
  by (simp_all add: ex_block_def)

lemma ex_traceBlockUncleRewards:
  "fst (traceBlockUncleRewards (ex_GetRewards [Some 1750, Some 1500]) ex_eth (ex_block 101) None)
     = [Some (rewardRecord (ex_block 101) (Some 1750) 160 ''uncle''),
        Some (rewardRecord (ex_block 101) (Some 1500) 161 ''uncle'')]"
  by (simp add: traceBlockUncleRewards_def ex_GetRewards_def ex_uncles ex_uncle0_def
        ex_uncle1_def rewardRecord_def)

section \<open>Tracer configuration: properties\<close>

text \<open>
  C3. The config resolver: an absent (nil) config is replaced by an empty one, which then
  gets the default tracer, so the result is the empty config with tracer
  \<open>"callTracerParity"\<close>; a config whose tracer is unset gets \<open>"callTracerParity"\<close>
  and keeps its other fields; a config whose tracer is set to any \<open>tracer\<close> is
  returned as it is.
\<close>

theorem setTraceConfigDefaultTracer_default:
  "setTraceConfigDefaultTracer None
     = Some \<lparr>Tracer = Some ''callTracerParity'', NestedTraceOutput = False\<rparr>
   \<and> setTraceConfigDefaultTracer None
     = setTraceConfigDefaultTracer (Some \<lparr>Tracer = None, NestedTraceOutput = False\<rparr>)
   \<and> setTraceConfigDefaultTracer (Some c)
     = Some (if Tracer c = None then c\<lparr>Tracer := Some ''callTracerParity''\<rparr> else c)
   \<and> setTraceConfigDefaultTracer (Some (c\<lparr>Tracer := None\<rparr>))
     = Some (c\<lparr>Tracer := Some ''callTracerParity''\<rparr>)
   \<and> setTraceConfigDefaultTracer (Some (c\<lparr>Tracer := Some tracer\<rparr>))
     = Some (c\<lparr>Tracer := Some tracer\<rparr>)"
  by (simp add: setTraceConfigDefaultTracer_def)

text \<open>
  C4. The config resolver is idempotent, for every config and for nil: resolving the
  resolved config gives the resolved config. Resolving a config whose tracer is already
  set leaves the tracer as it was.
\<close>

theorem setTraceConfigDefaultTracer_idempotent:
  "setTraceConfigDefaultTracer (setTraceConfigDefaultTracer config)
     = setTraceConfigDefaultTracer config
   \<and> map_option Tracer (setTraceConfigDefaultTracer (Some (c\<lparr>Tracer := Some tracer\<rparr>)))
     = Some (Some tracer)"
  by (cases config) (simp_all add: setTraceConfigDefaultTracer_def Let_def)

section \<open>Response decoration: properties\<close>

text \<open>
  C5. For every result \<open>r\<close>: with nested output requested and the tracer set,
  \<open>decorateResponse\<close> returns the one-key map \<open>{"trace": r}\<close> for the tracer
  \<open>"callTracerParity"\<close>, \<open>{"stateDiff": r}\<close> for \<open>"stateDiffTracer"\<close> and \<open>r\<close>
  itself for any other tracer; with nested output not requested (whatever the tracer),
  with the tracer unset (whatever the flag), or with a nil config, it returns \<open>r\<close>
  itself. It never returns an error.
\<close>

theorem decorateResponse_cases:
  "decorateResponse r (Some \<lparr>Tracer = Some tracer, NestedTraceOutput = True\<rparr>)
     = (if tracer = ''callTracerParity'' then (IMap [''trace'' \<mapsto> r], None)
        else if tracer = ''stateDiffTracer'' then (IMap [''stateDiff'' \<mapsto> r], None)
        else (r, None))
   \<and> decorateResponse r (Some \<lparr>Tracer = t, NestedTraceOutput = False\<rparr>) = (r, None)
   \<and> decorateResponse r (Some \<lparr>Tracer = None, NestedTraceOutput = nested\<rparr>) = (r, None)
   \<and> decorateResponse r None = (r, None)"
  by (simp add: decorateResponse_def decorateNestedTraceResponse_def)

section \<open>Call and CallMany: properties\<close>

text \<open>
  C8. When the call tracer succeeds with result \<open>res\<close>, \<open>Call\<close> returns what
  \<open>decorateResponse\<close> makes of \<open>res\<close> under the resolved config; when the
  multi-call tracer succeeds with result \<open>res'\<close>, \<open>CallMany\<close> returns \<open>res'\<close>
  itself, undecorated.
\<close>

theorem Call_decorates_CallMany_does_not:
  "(traceCall eth args blockNrOrHash (setTraceConfigDefaultTracer config) = (res, None) \<longrightarrow>
      Call traceCall eth args blockNrOrHash config
        = decorateResponse res (setTraceConfigDefaultTracer config))
   \<and> (traceCallMany eth txs blockNrOrHash (setTraceConfigDefaultTracer config) = (res', None) \<longrightarrow>
      CallMany traceCallMany eth txs blockNrOrHash config = (res', None))"
  by (simp add: Call_def CallMany_def)

text \<open>
  With nested output requested and no tracer named, the same tracer result \<open>"r"\<close>
  comes back as \<open>{"trace": "r"}\<close> from \<open>Call\<close> and as \<open>"r"\<close> from
  \<open>CallMany\<close>.
\<close>

theorem Call_decorates_CallMany_does_not_witness:
  "Call (\<lambda>eth args ref config. (IJson (JString ''r''), None)) ex_eth () ()
       (Some \<lparr>Tracer = None, NestedTraceOutput = True\<rparr>)
     = (IMap [''trace'' \<mapsto> IJson (JString ''r'')], None)
   \<and> CallMany (\<lambda>eth txs ref config. (IJson (JString ''r''), None)) ex_eth [()] ()
       (Some \<lparr>Tracer = None, NestedTraceOutput = True\<rparr>)
     = (IJson (JString ''r''), None)"
  using Call_decorates_CallMany_does_not
    [of "\<lambda>eth args ref config. (IJson (JString ''r''), None)" ex_eth "()" "()"
        "Some \<lparr>Tracer = None, NestedTraceOutput = True\<rparr>" "IJson (JString ''r'')"
        "\<lambda>eth txs ref config. (IJson (JString ''r''), None)" "[()]" "IJson (JString ''r'')"]
  by (simp add: setTraceConfigDefaultTracer_def decorateResponse_def
        decorateNestedTraceResponse_def)

section \<open>Filter: properties\<close>

text \<open>
  C6. \<open>Filter\<close> fails with the error naming the start number when the lookup of
  \<open>fromBlock\<close> misses, and with the error naming the end number when the start block
  is found and the lookup of \<open>toBlock\<close> misses. When both blocks are found it fails
  with the range error naming the end and the start number unless the end block's
  number is strictly greater than the start block's number; when it is, the call is
  handed to \<open>traceChain\<close> on the two blocks under the resolved config.
\<close>

theorem Filter_validates_range:
  "(blockchain_GetBlockByNumber eth (FromBlock args) = None \<longrightarrow>
      Filter traceChain eth args config = (None, Some (StartingBlockNotFound (FromBlock args))))
   \<and> (blockchain_GetBlockByNumber eth (FromBlock args) = Some start_block
        \<and> blockchain_GetBlockByNumber eth (ToBlock args) = None \<longrightarrow>
      Filter traceChain eth args config = (None, Some (EndBlockNotFound (ToBlock args))))
   \<and> (blockchain_GetBlockByNumber eth (FromBlock args) = Some start_block
        \<and> blockchain_GetBlockByNumber eth (ToBlock args) = Some end_block
        \<and> \<not> Block_Number start_block < Block_Number end_block \<longrightarrow>
      Filter traceChain eth args config
        = (None, Some (EndNotAfterStart (ToBlock args) (FromBlock args))))
   \<and> (blockchain_GetBlockByNumber eth (FromBlock args) = Some start_block
        \<and> blockchain_GetBlockByNumber eth (ToBlock args) = Some end_block
        \<and> Block_Number start_block < Block_Number end_block \<longrightarrow>
      Filter traceChain eth args config
        = traceChain eth start_block end_block (setTraceConfigDefaultTracer config))"
  by (simp add: Filter_def Let_def)

text \<open>
  On the example chain: a start block that does not exist, an end block that does not
  exist, equal bounds, reversed bounds, and the valid range from 10 to 11.
\<close>

theorem Filter_validates_range_witness:
  "Filter ex_traceChain ex_eth (ex_args 999999 10) None = (None, Some (StartingBlockNotFound 999999))
   \<and> Filter ex_traceChain ex_eth (ex_args 10 102) None = (None, Some (EndBlockNotFound 102))
   \<and> Filter ex_traceChain ex_eth (ex_args 10 10) None = (None, Some (EndNotAfterStart 10 10))
   \<and> Filter ex_traceChain ex_eth (ex_args 10 9) None = (None, Some (EndNotAfterStart 9 10))
   \<and> Filter ex_traceChain ex_eth (ex_args 10 11) None = (Some (10, 11), None)"
  using Filter_validates_range [of ex_eth "ex_args 999999 10" ex_traceChain None]
    Filter_validates_range [of ex_eth "ex_args 10 102" ex_traceChain None "ex_block 10"]
    Filter_validates_range [of ex_eth "ex_args 10 10" ex_traceChain None "ex_block 10" "ex_block 10"]
    Filter_validates_range [of ex_eth "ex_args 10 9" ex_traceChain None "ex_block 10" "ex_block 9"]
    Filter_validates_range [of ex_eth "ex_args 10 11" ex_traceChain None "ex_block 10" "ex_block 11"]
  by (simp add: ex_GetBlockByNumber ex_args_def ex_block_def ex_traceChain_def)

section \<open>Reward synthesis: properties\<close>

text \<open>
  C2. Every record synthesized with type \<open>"reward"\<close> has \<open>subtraces = 0\<close>, the
  empty trace address \<open>[]\<close>, no transaction hash and no transaction position.
  \<open>traceBlockReward\<close> returns one such record whose action is the miner reward, the
  block's coinbase as author and the reward type \<open>"block"\<close>; every record in the
  result of \<open>traceBlockUncleRewards\<close> is such a record whose action is one of the
  uncle rewards, the coinbase of one of the block's uncles as author and the reward type
  \<open>"uncle"\<close>.
\<close>

theorem reward_records_shape:
  fixes GetRewards :: "'c \<Rightarrow> types_Header \<Rightarrow> types_Header list \<Rightarrow> big \<times> big list"
    and eth :: "'c Ethereum" and block :: types_Block
  defines "rewards \<equiv> GetRewards (blockchain_Config eth) (Block_Header block) (Block_Uncles block)"
  shows "(\<exists>tr. traceBlockReward GetRewards eth block config = (Some tr, None)
            \<and> Type tr = ''reward'' \<and> Subtraces tr = 0 \<and> TraceAddress tr = Some []
            \<and> TransactionHash tr = None \<and> TransactionPosition tr = None
            \<and> Action tr = \<lparr>Value = fst rewards, Author = Some (Block_Coinbase block),
                             RewardType = ''block''\<rparr>)
       \<and> (\<forall>tr. Some tr \<in> set (fst (traceBlockUncleRewards GetRewards eth block config)) \<longrightarrow>
              Type tr = ''reward'' \<and> Subtraces tr = 0 \<and> TraceAddress tr = Some []
            \<and> TransactionHash tr = None \<and> TransactionPosition tr = None
            \<and> (\<exists>amount uncle. amount \<in> set (snd rewards) \<and> uncle \<in> set (Block_Uncles block)
                  \<and> Action tr = \<lparr>Value = amount, Author = Some (Coinbase uncle),
                                   RewardType = ''uncle''\<rparr>))"
proof -
  have block_part: "\<exists>tr. traceBlockReward GetRewards eth block config = (Some tr, None)
            \<and> Type tr = ''reward'' \<and> Subtraces tr = 0 \<and> TraceAddress tr = Some []
            \<and> TransactionHash tr = None \<and> TransactionPosition tr = None
            \<and> Action tr = \<lparr>Value = fst rewards, Author = Some (Block_Coinbase block),
                             RewardType = ''block''\<rparr>"
    by (simp add: traceBlockReward_def rewards_def)
  have uncle_part: "Type tr = ''reward'' \<and> Subtraces tr = 0 \<and> TraceAddress tr = Some []
            \<and> TransactionHash tr = None \<and> TransactionPosition tr = None
            \<and> (\<exists>amount uncle. amount \<in> set (snd rewards) \<and> uncle \<in> set (Block_Uncles block)
                  \<and> Action tr = \<lparr>Value = amount, Author = Some (Coinbase uncle),
                                   RewardType = ''uncle''\<rparr>)"
    if "Some tr \<in> set (fst (traceBlockUncleRewards GetRewards eth block config))" for tr
  proof -
    from that obtain uncle amount where
      pair: "(uncle, amount) \<in> set (zip (Block_Uncles block) (snd rewards))"
      and tr: "tr = rewardRecord block amount (Coinbase uncle) ''uncle''"
      by (auto simp add: traceBlockUncleRewards_eq Let_def rewards_def)
    from pair have "amount \<in> set (snd rewards)" and "uncle \<in> set (Block_Uncles block)"
      by (auto dest: set_zip_leftD set_zip_rightD)
    with tr show ?thesis
      by (auto simp add: rewardRecord_def)
  qed
  from block_part uncle_part show ?thesis by blast
qed

text \<open>
  On block 101 of the example chain, with a reward for each of its two uncles, the
  record of the second uncle is in the result and has the shape of a reward record.
\<close>

theorem reward_records_shape_witness:
  "Some (rewardRecord (ex_block 101) (Some 1500) 161 ''uncle'')
     \<in> set (fst (traceBlockUncleRewards (ex_GetRewards [Some 1750, Some 1500]) ex_eth
                  (ex_block 101) None))
   \<and> Type (rewardRecord (ex_block 101) (Some 1500) 161 ''uncle'') = ''reward''
   \<and> Subtraces (rewardRecord (ex_block 101) (Some 1500) 161 ''uncle'') = 0
   \<and> TraceAddress (rewardRecord (ex_block 101) (Some 1500) 161 ''uncle'') = Some []
   \<and> TransactionHash (rewardRecord (ex_block 101) (Some 1500) 161 ''uncle'') = None
   \<and> TransactionPosition (rewardRecord (ex_block 101) (Some 1500) 161 ''uncle'') = None
   \<and> RewardType (Action (rewardRecord (ex_block 101) (Some 1500) 161 ''uncle'')) = ''uncle''"
proof -
  have mem: "Some (rewardRecord (ex_block 101) (Some 1500) 161 ''uncle'')
     \<in> set (fst (traceBlockUncleRewards (ex_GetRewards [Some 1750, Some 1500]) ex_eth
                  (ex_block 101) None))"
    by (simp add: ex_traceBlockUncleRewards)
  from reward_records_shape [of "ex_GetRewards [Some 1750, Some 1500]" ex_eth "ex_block 101" None]
  have "Some (rewardRecord (ex_block 101) (Some 1500) 161 ''uncle'')
          \<in> set (fst (traceBlockUncleRewards (ex_GetRewards [Some 1750, Some 1500]) ex_eth
                  (ex_block 101) None)) \<longrightarrow>
        Type (rewardRecord (ex_block 101) (Some 1500) 161 ''uncle'') = ''reward''
      \<and> Subtraces (rewardRecord (ex_block 101) (Some 1500) 161 ''uncle'') = 0
      \<and> TraceAddress (rewardRecord (ex_block 101) (Some 1500) 161 ''uncle'') = Some []
      \<and> TransactionHash (rewardRecord (ex_block 101) (Some 1500) 161 ''uncle'') = None
      \<and> TransactionPosition (rewardRecord (ex_block 101) (Some 1500) 161 ''uncle'') = None
      \<and> (\<exists>amount uncle. amount \<in> set (snd (ex_GetRewards [Some 1750, Some 1500]
                 (blockchain_Config ex_eth) (Block_Header (ex_block 101))
                 (Block_Uncles (ex_block 101))))
            \<and> uncle \<in> set (Block_Uncles (ex_block 101))
            \<and> Action (rewardRecord (ex_block 101) (Some 1500) 161 ''uncle'')
                = \<lparr>Value = amount, Author = Some (Coinbase uncle), RewardType = ''uncle''\<rparr>)"
    by blast
  with mem show ?thesis by auto
qed

text \<open>
  C7. \<open>traceBlockUncleRewards\<close> never returns an error. For every uncle of the
  block whose index \<open>i\<close> has a reward amount, entry \<open>i\<close> of the result is the
  reward record with reward type \<open>"uncle"\<close>, that amount and that uncle's coinbase as
  author, whatever the other uncles and amounts are. For an uncle whose index has no
  reward amount the result has no entry at that index. The records of the result, in
  order, are exactly the records of the uncles paired with their amounts: one per uncle
  that has an amount, in uncle order.
\<close>

theorem traceBlockUncleRewards_per_uncle:
  fixes GetRewards :: "'c \<Rightarrow> types_Header \<Rightarrow> types_Header list \<Rightarrow> big \<times> big list"
    and eth :: "'c Ethereum" and block :: types_Block and config :: "TraceConfig option"
  defines "uncles \<equiv> Block_Uncles block"
    and "uncleRewards \<equiv> snd (GetRewards (blockchain_Config eth) (Block_Header block)
                                 (Block_Uncles block))"
    and "results \<equiv> fst (traceBlockUncleRewards GetRewards eth block config)"
  shows "snd (traceBlockUncleRewards GetRewards eth block config) = None
       \<and> (\<forall>i. i < length uncles \<and> i < length uncleRewards \<longrightarrow>
              results ! i = Some (rewardRecord block (uncleRewards ! i)
                                    (Coinbase (uncles ! i)) ''uncle''))
       \<and> (\<forall>i. i < length uncles \<and> length uncleRewards \<le> i \<longrightarrow> length results \<le> i)
       \<and> List.map_filter id results
           = map (\<lambda>(uncle, amount). rewardRecord block amount (Coinbase uncle) ''uncle'')
               (zip uncles uncleRewards)"
proof -
  have results: "results
      = map (\<lambda>(uncle, amount). Some (rewardRecord block amount (Coinbase uncle) ''uncle''))
          (zip uncles uncleRewards)
        @ replicate (length uncleRewards - length uncles) None"
    by (simp add: results_def uncles_def uncleRewards_def traceBlockUncleRewards_eq Let_def)
  have no_error: "snd (traceBlockUncleRewards GetRewards eth block config) = None"
    by (simp add: traceBlockUncleRewards_def Let_def)
  have at: "results ! i = Some (rewardRecord block (uncleRewards ! i)
                                  (Coinbase (uncles ! i)) ''uncle'')"
    if "i < length uncles" "i < length uncleRewards" for i
    using that by (simp add: results nth_append)
  have len: "length results = length uncleRewards"
    by (simp add: results)
  have "List.map_filter id (map (\<lambda>p. Some (f p)) ps @ replicate n None) = map f ps"
    for f :: "types_Header \<times> big \<Rightarrow> ParityTrace" and ps n
    by (induction n) (simp_all add: map_filter_def comp_def replicate_append_same [symmetric]
          del: replicate_Suc)
  from this [of "\<lambda>(uncle, amount). rewardRecord block amount (Coinbase uncle) ''uncle''"]
  have records: "List.map_filter id results
           = map (\<lambda>(uncle, amount). rewardRecord block amount (Coinbase uncle) ''uncle'')
               (zip uncles uncleRewards)"
    by (simp add: results split_def)
  from no_error at len records show ?thesis by simp
qed

text \<open>
  Block 101 has two uncles; with a single reward amount the first uncle gets its record
  and the result has no entry for the second.
\<close>

theorem traceBlockUncleRewards_per_uncle_witness:
  "fst (traceBlockUncleRewards (ex_GetRewards [Some 1750]) ex_eth (ex_block 101) None) ! 0
     = Some (rewardRecord (ex_block 101) (Some 1750) (Coinbase ex_uncle0) ''uncle'')
   \<and> length (fst (traceBlockUncleRewards (ex_GetRewards [Some 1750]) ex_eth (ex_block 101) None))
     \<le> 1"
  using traceBlockUncleRewards_per_uncle [of "ex_GetRewards [Some 1750]" ex_eth "ex_block 101" None]
  by (simp add: ex_uncles ex_GetRewards_def)

text \<open>
  C10. The slice returned by \<open>traceBlockUncleRewards\<close> has the length of the list of
  uncle rewards, not of the list of uncles: when there are more rewards than uncles, the
  entries at the indices from the number of uncles on are nil. When \<open>Block\<close>
  succeeds, its result ends with all the entries of that slice, so it carries these nil
  entries after the block-reward record.
\<close>

theorem traceBlockUncleRewards_length:
  fixes GetRewards :: "'c \<Rightarrow> types_Header \<Rightarrow> types_Header list \<Rightarrow> big \<times> big list"
    and eth :: "'c Ethereum" and block :: types_Block and config :: "TraceConfig option"
  defines "uncles \<equiv> Block_Uncles block"
    and "uncleRewards \<equiv> snd (GetRewards (blockchain_Config eth) (Block_Header block)
                                 (Block_Uncles block))"
    and "traceUncleRewards \<equiv> fst (traceBlockUncleRewards GetRewards eth block
                                       (setTraceConfigDefaultTracer config))"
  shows "length traceUncleRewards = length uncleRewards
       \<and> (\<forall>i. length uncles \<le> i \<and> i < length uncleRewards \<longrightarrow> traceUncleRewards ! i = None)
       \<and> (resolveBlock eth number = Some block
            \<and> traceBlockByNumber eth number (setTraceConfigDefaultTracer config)
                = (traceResults, None)
            \<and> list_all2 decodesTo traceResults tmps \<longrightarrow>
          (\<exists>results. Block GetRewards traceBlockByNumber eth number config
                        = Returns (Some results, None)
             \<and> length results = length (concat tmps) + 1 + length uncleRewards
             \<and> drop (length (concat tmps) + 1) results = map IParityTrace traceUncleRewards
             \<and> (\<forall>i. length uncles \<le> i \<and> i < length uncleRewards \<longrightarrow>
                    results ! (length (concat tmps) + 1 + i) = IParityTrace None)))"
proof -
  have eq: "traceUncleRewards
      = map (\<lambda>(uncle, amount). Some (rewardRecord block amount (Coinbase uncle) ''uncle''))
          (zip uncles uncleRewards)
        @ replicate (length uncleRewards - length uncles) None"
    by (simp add: traceUncleRewards_def uncles_def uncleRewards_def traceBlockUncleRewards_eq
          Let_def)
  have len: "length traceUncleRewards = length uncleRewards"
    by (simp add: eq)
  have null: "traceUncleRewards ! i = None"
    if "length uncles \<le> i" "i < length uncleRewards" for i
    using that by (simp add: eq nth_append)
  have merged: "\<exists>results. Block GetRewards traceBlockByNumber eth number config
                        = Returns (Some results, None)
             \<and> length results = length (concat tmps) + 1 + length uncleRewards
             \<and> drop (length (concat tmps) + 1) results = map IParityTrace traceUncleRewards
             \<and> (\<forall>i. length uncles \<le> i \<and> i < length uncleRewards \<longrightarrow>
                    results ! (length (concat tmps) + 1 + i) = IParityTrace None)"
    if "resolveBlock eth number = Some block"
      and "traceBlockByNumber eth number (setTraceConfigDefaultTracer config)
             = (traceResults, None)"
      and "list_all2 decodesTo traceResults tmps"
  proof -
    let ?reward = "IParityTrace (fst (traceBlockReward GetRewards eth block
                                        (setTraceConfigDefaultTracer config)))"
    let ?results = "concat tmps @ [?reward] @ map IParityTrace traceUncleRewards"
    have "Block GetRewards traceBlockByNumber eth number config = Returns (Some ?results, None)"
      unfolding traceUncleRewards_def by (rule Block_merges) (fact that)+
    moreover have "length ?results = length (concat tmps) + 1 + length uncleRewards"
      by (simp add: len)
    moreover have "drop (length (concat tmps) + 1) ?results = map IParityTrace traceUncleRewards"
      by simp
    moreover have "?results ! (length (concat tmps) + 1 + i) = IParityTrace None"
      if "length uncles \<le> i" "i < length uncleRewards" for i
      using that null [OF that] len by (simp add: nth_append)
    ultimately show ?thesis by blast
  qed
  from len null merged show ?thesis by blast
qed

text \<open>
  Block 101 has two uncles; with three reward amounts the slice has three entries, the
  last one nil, and \<open>Block\<close> returns seven entries, the last one a nil record.
\<close>

theorem traceBlockUncleRewards_length_witness:
  "length (fst (traceBlockUncleRewards (ex_GetRewards [Some 1750, Some 1500, Some 1250]) ex_eth
                  (ex_block 101) (setTraceConfigDefaultTracer None))) = 3
   \<and> fst (traceBlockUncleRewards (ex_GetRewards [Some 1750, Some 1500, Some 1250]) ex_eth
            (ex_block 101) (setTraceConfigDefaultTracer None)) ! 2 = None
   \<and> (\<exists>results. Block (ex_GetRewards [Some 1750, Some 1500, Some 1250]) ex_traceBlockByNumber
                     ex_eth 101 None = Returns (Some results, None)
         \<and> length results = 7 \<and> results ! 6 = IParityTrace None)"
proof -
  let ?G = "ex_GetRewards [Some 1750, Some 1500, Some 1250]"
  let ?tmps = "[[IJson (JString ''a'')], [IJson (JString ''b''), IJson (JString ''c'')]]"
  let ?trs = "fst (ex_traceBlockByNumber ex_eth 101 (setTraceConfigDefaultTracer None))"
  have tbn: "ex_traceBlockByNumber ex_eth 101 (setTraceConfigDefaultTracer None) = (?trs, None)"
    by (simp add: ex_traceBlockByNumber_def)
  have dec: "list_all2 decodesTo ?trs ?tmps"
    by (rule ex_decodesTo)
  have uncles: "length (Block_Uncles (ex_block 101)) = 2"
    by (simp add: ex_uncles)
  have rewards: "length (snd (?G (blockchain_Config ex_eth) (Block_Header (ex_block 101))
                    (Block_Uncles (ex_block 101)))) = 3"
    by (simp add: ex_GetRewards_def)
  have flat: "length (concat ?tmps) = 3"
    by simp
  note inst = traceBlockUncleRewards_length
    [of ?G ex_eth "ex_block 101" None 101 ex_traceBlockByNumber ?trs ?tmps,
     unfolded uncles rewards flat]
  from inst have 1: "length (fst (traceBlockUncleRewards ?G ex_eth (ex_block 101)
                                  (setTraceConfigDefaultTracer None))) = 3"
    by (rule conjunct1)
  from inst have "(2::nat) \<le> 2 \<and> (2::nat) < 3 \<longrightarrow>
      fst (traceBlockUncleRewards ?G ex_eth (ex_block 101) (setTraceConfigDefaultTracer None)) ! 2
        = None"
    by blast
  then have 2: "fst (traceBlockUncleRewards ?G ex_eth (ex_block 101)
                      (setTraceConfigDefaultTracer None)) ! 2 = None"
    by simp
  from inst ex_resolveBlock(2) tbn dec obtain results where
    r: "Block ?G ex_traceBlockByNumber ex_eth 101 None = Returns (Some results, None)"
    and l: "length results = 3 + 1 + 3"
    and n: "\<forall>i. 2 \<le> i \<and> i < 3 \<longrightarrow> results ! (3 + 1 + i) = IParityTrace None"
    by blast
  from n have "(2::nat) \<le> 2 \<and> (2::nat) < 3 \<longrightarrow> results ! (3 + 1 + 2) = IParityTrace None"
    by (rule spec)
  then have "results ! 6 = IParityTrace None"
    by simp
  with r l have 3: "\<exists>results. Block ?G ex_traceBlockByNumber ex_eth 101 None
                        = Returns (Some results, None)
         \<and> length results = 7 \<and> results ! 6 = IParityTrace None"
    by simp
  from 1 2 3 show ?thesis by (intro conjI)
qed

section \<open>Block: properties\<close>

text \<open>
  C1, amended. For a block that resolves, whose \<open>N\<close> transactions trace to payloads
  that decode to the sequences \<open>tmps\<close> (\<open>N_flat\<close> entries in all), with \<open>U\<close>
  uncles and a list of uncle rewards that has exactly \<open>U\<close> entries, \<open>Block\<close>
  returns exactly \<open>N_flat + 1 + U\<close> entries: the decoded entries of all transactions
  in block order, then the block-reward record at position \<open>N_flat\<close>, then the
  uncle-reward records in uncle order.
\<close>

theorem Block_order:
  assumes "resolveBlock eth number = Some block"
    and "traceBlockByNumber eth number (setTraceConfigDefaultTracer config) = (traceResults, None)"
    and "list_all2 decodesTo traceResults tmps"
    and "GetRewards (blockchain_Config eth) (Block_Header block) (Block_Uncles block)
           = (minerReward, uncleRewards)"
    and "length uncleRewards = length (Block_Uncles block)"
  shows "\<exists>results. Block GetRewards traceBlockByNumber eth number config
                     = Returns (Some results, None)
           \<and> results = concat tmps
               @ [IParityTrace (Some (rewardRecord block minerReward (Block_Coinbase block)
                                        ''block''))]
               @ map (\<lambda>(uncle, amount).
                        IParityTrace (Some (rewardRecord block amount (Coinbase uncle) ''uncle'')))
                   (zip (Block_Uncles block) uncleRewards)
           \<and> length traceResults = length tmps
           \<and> length results = length (concat tmps) + 1 + length (Block_Uncles block)
           \<and> results ! length (concat tmps)
               = IParityTrace (Some (rewardRecord block minerReward (Block_Coinbase block)
                                       ''block''))"
proof -
  have "Block GetRewards traceBlockByNumber eth number config
      = Returns (Some (concat tmps
               @ [IParityTrace (fst (traceBlockReward GetRewards eth block
                                       (setTraceConfigDefaultTracer config)))]
               @ map IParityTrace (fst (traceBlockUncleRewards GetRewards eth block
                                          (setTraceConfigDefaultTracer config)))), None)"
    by (rule Block_merges) (fact assms)+
  moreover have "length traceResults = length tmps"
    using assms(3) by (rule list_all2_lengthD)
  ultimately show ?thesis
    using assms(4,5)
    by (simp add: traceBlockReward_eq traceBlockUncleRewards_eq Let_def split_def comp_def)
qed

text \<open>
  Block 100 of the example chain: two transactions traced to \<open>["a"]\<close> and
  \<open>["b","c"]\<close>, one uncle with its reward.
\<close>

theorem Block_order_witness:
  "Block (ex_GetRewards [Some 1750]) ex_traceBlockByNumber ex_eth 100 None
     = Returns (Some [IJson (JString ''a''), IJson (JString ''b''), IJson (JString ''c''),
                      IParityTrace (Some (rewardRecord (ex_block 100) (Some 2000) 192 ''block'')),
                      IParityTrace (Some (rewardRecord (ex_block 100) (Some 1750) 160 ''uncle''))],
                None)"
proof -
  let ?trs = "fst (ex_traceBlockByNumber ex_eth 100 (setTraceConfigDefaultTracer None))"
  have tbn: "ex_traceBlockByNumber ex_eth 100 (setTraceConfigDefaultTracer None) = (?trs, None)"
    by (simp add: ex_traceBlockByNumber_def)
  have rewards: "ex_GetRewards [Some 1750] (blockchain_Config ex_eth) (Block_Header (ex_block 100))
                   (Block_Uncles (ex_block 100)) = (Some 2000, [Some 1750])"
    by (simp add: ex_GetRewards_def)
  have len: "length [Some (1750::int)] = length (Block_Uncles (ex_block 100))"
    by (simp add: ex_uncles)
  from Block_order [where GetRewards = "ex_GetRewards [Some 1750]"
                      and traceBlockByNumber = ex_traceBlockByNumber,
                    OF ex_resolveBlock(1) tbn
                      ex_decodesTo [of ex_eth 100 "setTraceConfigDefaultTracer None"]
                      rewards len]
  show ?thesis
    by (simp add: ex_uncles ex_uncle0_def ex_block_def)
qed

text \<open>
  C1 as stated fails when the list of uncle rewards is longer than the list of uncles.
  Block 100 has one uncle, which has a matching reward, and the reward list has a second
  entry: \<open>Block\<close> returns six entries, not \<open>3 + 1 + 1\<close>, the last one a nil
  record.
\<close>

theorem Block_order_counterexample:
  "list_all2 decodesTo (fst (ex_traceBlockByNumber ex_eth 100 (setTraceConfigDefaultTracer None)))
     [[IJson (JString ''a'')], [IJson (JString ''b''), IJson (JString ''c'')]]
   \<and> length (Block_Uncles (ex_block 100)) = 1
   \<and> snd (ex_GetRewards [Some 1750, Some 1500] (blockchain_Config ex_eth)
            (Block_Header (ex_block 100)) (Block_Uncles (ex_block 100)))
       = [Some 1750, Some 1500]
   \<and> Block (ex_GetRewards [Some 1750, Some 1500]) ex_traceBlockByNumber ex_eth 100 None
       = Returns (Some [IJson (JString ''a''), IJson (JString ''b''), IJson (JString ''c''),
                      IParityTrace (Some (rewardRecord (ex_block 100) (Some 2000) 192 ''block'')),
                      IParityTrace (Some (rewardRecord (ex_block 100) (Some 1750) 160 ''uncle'')),
                      IParityTrace None],
                  None)
   \<and> length [IJson (JString ''a''), IJson (JString ''b''), IJson (JString ''c''),
              IParityTrace (Some (rewardRecord (ex_block 100) (Some 2000) 192 ''block'')),
              IParityTrace (Some (rewardRecord (ex_block 100) (Some 1750) 160 ''uncle'')),
              IParityTrace None]
       \<noteq> length (concat [[IJson (JString ''a'')], [IJson (JString ''b''), IJson (JString ''c'')]])
           + 1 + length (Block_Uncles (ex_block 100))"
proof -
  let ?trs = "fst (ex_traceBlockByNumber ex_eth 100 (setTraceConfigDefaultTracer None))"
  have tbn: "ex_traceBlockByNumber ex_eth 100 (setTraceConfigDefaultTracer None) = (?trs, None)"
    by (simp add: ex_traceBlockByNumber_def)
  from Block_merges [where GetRewards = "ex_GetRewards [Some 1750, Some 1500]"
                       and traceBlockByNumber = ex_traceBlockByNumber,
                     OF ex_resolveBlock(1) tbn
                       ex_decodesTo [of ex_eth 100 "setTraceConfigDefaultTracer None"]]
  show ?thesis
    by (simp add: ex_decodesTo traceBlockReward_eq traceBlockUncleRewards_eq ex_GetRewards_def
          ex_uncles ex_uncle0_def ex_block_def)
qed

text \<open>
  The error returns of \<open>Block\<close>. It returns no result slice and an error when the
  block does not resolve (the error names the requested number), when the transaction
  tracer fails (its error), and when the payloads of the first transactions decode and
  the next payload is a \<open>json.RawMessage\<close> that does not (the error of
  \<open>json.Unmarshal\<close>); the two reward functions never return an error. Whenever
  \<open>Block\<close> returns no result slice it returns an error, and whenever it returns a
  result slice it returns no error and the slice is the complete merge: the decoded
  entries of every transaction, the block-reward record and all the entries of the
  uncle-reward slice.
\<close>

lemma Block_error_returns:
  "(resolveBlock eth number = None \<longrightarrow>
      Block GetRewards traceBlockByNumber eth number config
        = Returns (None, Some (BlockNotFound number)))
   \<and> (resolveBlock eth number = Some block
        \<and> traceBlockByNumber eth number (setTraceConfigDefaultTracer config)
            = (traceResults, Some err) \<longrightarrow>
      Block GetRewards traceBlockByNumber eth number config = Returns (None, Some err))
   \<and> snd (traceBlockReward GetRewards eth block (setTraceConfigDefaultTracer config)) = None
   \<and> snd (traceBlockUncleRewards GetRewards eth block (setTraceConfigDefaultTracer config)) = None
   \<and> (resolveBlock eth number = Some block
        \<and> traceBlockByNumber eth number (setTraceConfigDefaultTracer config)
            = (decodable @ result # rest, None)
        \<and> list_all2 decodesTo decodable tmps
        \<and> tx_Result result = IRawMessage raw
        \<and> Unmarshal raw = (tmp, Some err) \<longrightarrow>
      Block GetRewards traceBlockByNumber eth number config = Returns (None, Some err))
   \<and> (Block GetRewards traceBlockByNumber eth number config = Returns (None, e) \<longrightarrow>
      e \<noteq> None)
   \<and> (Block GetRewards traceBlockByNumber eth number config = Returns (Some results, e) \<longrightarrow>
      e = None
      \<and> (\<exists>block traceResults tmps.
            resolveBlock eth number = Some block
          \<and> traceBlockByNumber eth number (setTraceConfigDefaultTracer config)
              = (traceResults, None)
          \<and> list_all2 decodesTo traceResults tmps
          \<and> results = concat tmps
              @ [IParityTrace (fst (traceBlockReward GetRewards eth block
                                      (setTraceConfigDefaultTracer config)))]
              @ map IParityTrace (fst (traceBlockUncleRewards GetRewards eth block
                                         (setTraceConfigDefaultTracer config)))))"
proof -
  have not_found: "Block GetRewards traceBlockByNumber eth number config
        = Returns (None, Some (BlockNotFound number))"
    if "resolveBlock eth number = None"
    using that by (simp add: Block_cases)
  have tracer: "Block GetRewards traceBlockByNumber eth number config = Returns (None, Some err)"
    if "resolveBlock eth number = Some block"
      and "traceBlockByNumber eth number (setTraceConfigDefaultTracer config)
             = (traceResults, Some err)"
    using that by (simp add: Block_cases)
  have reward: "snd (traceBlockReward GetRewards eth block (setTraceConfigDefaultTracer config))
      = None"
    by (simp add: traceBlockReward_eq)
  have uncle: "snd (traceBlockUncleRewards GetRewards eth block
                      (setTraceConfigDefaultTracer config)) = None"
    by (simp add: traceBlockUncleRewards_eq Let_def)
  have decode: "Block GetRewards traceBlockByNumber eth number config = Returns (None, Some err)"
    if "resolveBlock eth number = Some block"
      and "traceBlockByNumber eth number (setTraceConfigDefaultTracer config)
             = (decodable @ result # rest, None)"
      and "list_all2 decodesTo decodable tmps"
      and "tx_Result result = IRawMessage raw"
      and "Unmarshal raw = (tmp, Some err)"
    using that(1,2) traceResultsLoop_fails [OF that(3,4,5), of rest "[]"]
    by (simp add: Block_cases)
  from not_found tracer reward uncle decode
    Block_returned_None [of GetRewards traceBlockByNumber eth number config e]
    Block_returned_Some [of GetRewards traceBlockByNumber eth number config results e]
  show ?thesis by blast
qed

text \<open>
  C9. Every failure of a sub-step of \<open>Block\<close>, the decoding of a transaction's
  traced payload as a sequence among them, is to abort the call with an error and no
  result slice. The code does so for a payload that is a \<open>json.RawMessage\<close> and does
  not decode to a sequence: on block 100, with the second payload the object
  \<open>{"b":"c"}\<close>, \<open>Block\<close> returns the error of \<open>json.Unmarshal\<close> and no slice.
  It does not for a payload that is not a \<open>json.RawMessage\<close>: with a second
  transaction result whose \<open>Result\<close> is nil, the unchecked type assertion
  \<open>result.Result.(json.RawMessage)\<close> panics, and \<open>Block\<close> returns neither an error
  nor a result.
\<close>

theorem Block_panics_without_payload:
  "Block (ex_GetRewards [Some 1750]) ex_traceBlockByNumber_undecodable ex_eth 100 None
     = Returns (None, Some UnmarshalTypeError)
   \<and> Block (ex_GetRewards [Some 1750]) ex_traceBlockByNumber_no_payload ex_eth 100 None
     = Panics"
  by (simp add: Block_cases ex_resolveBlock ex_traceBlockByNumber_undecodable_def
        ex_traceBlockByNumber_no_payload_def Unmarshal_def decoded_def)

end
